theory Spec2Isabelle
  imports Complex_Main
begin

section \<open>The domain module of nanodesign: data model\<close>

text \<open>
  The module \<^verbatim>\<open>nanodesign/data/domain.py\<close> defines the class \<^verbatim>\<open>Domain\<close>. Python
  exceptions are values of the type \<open>error\<close>; a method that can raise returns
  \<open>error + 'a\<close>, with \<open>Inl\<close> for the raised exception. Python floats occur in this module
  only as the literals \<^verbatim>\<open>-500.0\<close>, \<^verbatim>\<open>-501.0\<close> and \<^verbatim>\<open>0.5\<close> and as values handed through
  from the energy model, so they are read as reals. A Python \<^verbatim>\<open>str\<close> is a \<open>string\<close>.
\<close>

datatype error = KeyError | IndexError

type_synonym coord = "real list"

type_synonym ref = nat

text \<open>
  The classes \<^verbatim>\<open>DnaBase\<close>, \<^verbatim>\<open>DnaStructureHelix\<close> and \<^verbatim>\<open>DnaStrand\<close> are defined elsewhere
  in the package. The records carry the attributes that \<^verbatim>\<open>domain.py\<close> reads:
  \<^verbatim>\<open>b.seq\<close> and \<^verbatim>\<open>b.coordinates\<close> of a base, \<^verbatim>\<open>helix.helix_axis_coords\<close> of a helix and
  \<^verbatim>\<open>strand.color\<close> of a strand.
\<close>

record DnaBase =
  seq :: string
  coordinates :: coord
  p :: int
    \<comment> \<open>Modelled from the spec: the position of the base along its helix, the key of
        the helix's coordinate table. The class \<^verbatim>\<open>DnaBase\<close> is not part of this module and
        \<^verbatim>\<open>domain.py\<close> never reads this attribute.\<close>

record DnaStructureHelix =
  helix_axis_coords :: "int \<rightharpoonup> coord"

record DnaStrand =
  strand_color :: "real list"

text \<open>
  The attributes of \<^verbatim>\<open>Domain\<close>, in the order \<^verbatim>\<open>__init__\<close> assigns them. \<open>domain_id\<close> is
  \<^verbatim>\<open>id\<close> and \<open>stored_color\<close> is \<^verbatim>\<open>_color\<close>, with \<open>None\<close> for Python's \<^verbatim>\<open>None\<close>. The
  strand is a reference to a shared object (or \<^verbatim>\<open>None\<close>); the helix and the bases are
  only read here and are kept by value.
\<close>

record Domain =
  domain_id :: int
  helix :: DnaStructureHelix
  strand :: "ref option"
  base_list :: "DnaBase list"
  stored_color :: "real list option"
  sequence :: string
  connected_strand :: int
  connected_domain :: int

text \<open>
  The object store: strand objects and domain objects by reference. A Python reference
  always points to an object, so both are total.
\<close>

record heap =
  strands :: "ref \<Rightarrow> DnaStrand"
  domains :: "ref \<Rightarrow> Domain"

text \<open>\<^verbatim>\<open>Domain.__init__(self, id, helix, strand, bases)\<close>\<close>

definition Domain_init ::
  "int \<Rightarrow> DnaStructureHelix \<Rightarrow> ref option \<Rightarrow> DnaBase list \<Rightarrow> Domain" where
  "Domain_init ident hlx strnd bases =
     \<lparr> domain_id = ident,
       helix = hlx,
       strand = strnd,
       base_list = bases,
       stored_color = None,
       sequence = concat (map seq bases),
       connected_strand = - 1,
       connected_domain = - 1 \<rparr>"

section \<open>The reverse complement\<close>

text \<open>
  The dictionary \<^verbatim>\<open>comp\<close> of \<^verbatim>\<open>rev_complement\<close>: keys are the characters of the
  sequence, values are one-character strings.
\<close>

definition comp_table :: "char \<rightharpoonup> string" where
  "comp_table = map_of
     [(CHR ''G'', ''C''), (CHR ''C'', ''G''),
      (CHR ''A'', ''T''), (CHR ''T'', ''A''),
      (CHR ''g'', ''c''), (CHR ''c'', ''g''),
      (CHR ''a'', ''t''), (CHR ''t'', ''a''),
      (CHR ''N'', ''N''), (CHR ''n'', ''n'')]"

text \<open>
  The loop \<^verbatim>\<open>for i in range(len(seq)): rev.append(comp[seq[len(seq) - i - 1]])\<close>, with
  the loop counter \<open>i\<close> and the list \<open>rev_list\<close> built so far. A character without an
  entry in \<^verbatim>\<open>comp\<close> raises \<^verbatim>\<open>KeyError\<close>.
\<close>

function rev_complement_loop :: "string \<Rightarrow> nat \<Rightarrow> string list \<Rightarrow> error + string list" where
  "rev_complement_loop sq i rev_list =
     (if i < length sq then
        (case comp_table (sq ! (length sq - i - 1)) of
           None \<Rightarrow> Inl KeyError
         | Some c \<Rightarrow> rev_complement_loop sq (Suc i) (rev_list @ [c]))
      else Inr rev_list)"
  by pat_completeness auto
termination
  by (relation "measure (\<lambda>(sq, i, rev_list). length sq - i)") auto

declare rev_complement_loop.simps [simp del]

definition rev_complement :: "string \<Rightarrow> error + string" where
  "rev_complement sq =
     (case rev_complement_loop sq 0 [] of
        Inl e \<Rightarrow> Inl e
      | Inr rev_list \<Rightarrow> Inr (concat rev_list))"

text \<open>
  The Watson-Crick complement as the specification words it: \<open>A\<close> and \<open>T\<close> swap, \<open>G\<close> and
  \<open>C\<close> swap, \<open>N\<close> stays, and the case of the letter is kept. Characters outside the
  alphabet are left alone here; the theorems below only use it on the alphabet.
\<close>

definition wc_complement :: "char \<Rightarrow> char" where
  "wc_complement c =
     (if c = CHR ''A'' then CHR ''T'' else if c = CHR ''T'' then CHR ''A''
      else if c = CHR ''G'' then CHR ''C'' else if c = CHR ''C'' then CHR ''G''
      else if c = CHR ''a'' then CHR ''t'' else if c = CHR ''t'' then CHR ''a''
      else if c = CHR ''g'' then CHR ''c'' else if c = CHR ''c'' then CHR ''g''
      else c)"

definition nucleotides :: "char set" where
  "nucleotides = set ''ATGCNatgcn''"

definition clean_nucleotides :: "char set" where
  "clean_nucleotides = set ''ATGCatgc''"

section \<open>The energy model\<close>

text \<open>
  \<^verbatim>\<open>from .energymodel import energy_model, convert_temperature_K_to_C\<close>: the module
  \<^verbatim>\<open>energymodel\<close> is not part of this source, so the three functions that
  \<^verbatim>\<open>melting_temperature\<close> calls are parameters: \<^verbatim>\<open>energy_model.stack_energy\<close>, which
  returns four values, \<^verbatim>\<open>energy_model.melting_temperature\<close> (here
  \<open>em_melting_temperature\<close>) and \<^verbatim>\<open>convert_temperature_K_to_C\<close>. The types of the first
  two results of \<open>stack_energy\<close> are left open.
\<close>

record ('x, 'y) energymodel =
  stack_energy :: "string \<Rightarrow> string \<Rightarrow> 'x \<times> 'y \<times> real \<times> real"
  em_melting_temperature :: "real \<Rightarrow> real \<Rightarrow> real"
  convert_temperature_K_to_C :: "real \<Rightarrow> real"

section \<open>The methods of Domain\<close>

text \<open>
  The getter of the property \<^verbatim>\<open>color\<close>, for the domain object at reference \<open>self\<close>.
\<close>

definition color :: "heap \<Rightarrow> ref \<Rightarrow> real list" where
  "color h self =
     (if stored_color (domains h self) \<noteq> None then the (stored_color (domains h self))
      else if strand (domains h self) \<noteq> None
        then strand_color (strands h (the (strand (domains h self))))
      else [0.5, 0.5, 0.5])"

text \<open>
  The setter of \<^verbatim>\<open>color\<close>: \<^verbatim>\<open>self._color = newval\<close>. \<open>newval\<close> may be \<^verbatim>\<open>None\<close>.
\<close>

definition color_setter :: "heap \<Rightarrow> ref \<Rightarrow> real list option \<Rightarrow> heap" where
  "color_setter h self newval =
     h\<lparr>domains := (domains h)(self := (domains h self)\<lparr>stored_color := newval\<rparr>)\<rparr>"

text \<open>
  Python's \<^verbatim>\<open>xs[i]\<close> on a list: a negative index counts from the end, an index out of
  range raises \<^verbatim>\<open>IndexError\<close>.
\<close>

definition py_index :: "'a list \<Rightarrow> int \<Rightarrow> error + 'a" where
  "py_index xs i =
     (if 0 \<le> i \<and> i < int (length xs) then Inr (xs ! nat i)
      else if i < 0 \<and> - int (length xs) \<le> i then Inr (xs ! nat (int (length xs) + i))
      else Inl IndexError)"

text \<open>
  \<^verbatim>\<open>get_end_points\<close>: the helix's table is bound to \<open>base_pos\<close>, as in the source, and
  the two points are the \<^verbatim>\<open>coordinates\<close> attributes of \<^verbatim>\<open>base_list[0]\<close> and
  \<^verbatim>\<open>base_list[-1]\<close>.
\<close>

definition get_end_points :: "Domain \<Rightarrow> error + (coord \<times> coord)" where
  "get_end_points self =
     (let base_pos = helix_axis_coords (helix self) in
      case py_index (base_list self) 0 of
        Inl e \<Rightarrow> Inl e
      | Inr base1 \<Rightarrow>
          (case py_index (base_list self) (- 1) of
             Inl e \<Rightarrow> Inl e
           | Inr base2 \<Rightarrow>
               (let point1 = coordinates base1;
                    point2 = coordinates base2
                in Inr (point1, point2))))"

text \<open>
  Modelled from the spec: the end points as the specification describes them, read from
  the owning helix's per-base coordinate table at the positions of the first and the last
  base. No function of the source computes this; it is what \<open>get_end_points\<close> is compared
  with.
\<close>

definition table_end_points :: "Domain \<Rightarrow> error + (coord \<times> coord)" where
  "table_end_points self =
     (let base_pos = helix_axis_coords (helix self) in
      case base_list self of
        [] \<Rightarrow> Inl IndexError
      | b # bs \<Rightarrow>
          (case (base_pos (p b), base_pos (p (last (b # bs)))) of
             (Some point1, Some point2) \<Rightarrow> Inr (point1, point2)
           | _ \<Rightarrow> Inl KeyError))"

text \<open>
  \<^verbatim>\<open>melting_temperature\<close>. The test \<^verbatim>\<open>"N" in self.sequence\<close> on a one-character string
  is membership of the character.
\<close>

definition melting_temperature :: "('x, 'y) energymodel \<Rightarrow> Domain \<Rightarrow> error + real" where
  "melting_temperature em self =
     (if connected_domain self = - 1 then Inr (- 500)
      else if CHR ''N'' \<in> set (sequence self) \<or> CHR ''n'' \<in> set (sequence self)
        then Inr (- 501)
      else
        (case rev_complement (sequence self) of
           Inl e \<Rightarrow> Inl e
         | Inr rc \<Rightarrow>
             (case stack_energy em (sequence self) rc of
                (_, _, dH, dS) \<Rightarrow>
                  (let melting_temp_K = em_melting_temperature em dH dS
                   in Inr (convert_temperature_K_to_C em melting_temp_K)))))"

text \<open>
  The same method with the calls it makes to the energy model written down. Every call
  of \<^verbatim>\<open>energy_model.stack_energy\<close>, \<^verbatim>\<open>energy_model.melting_temperature\<close> and
  \<^verbatim>\<open>convert_temperature_K_to_C\<close> is one entry of the trace, with its arguments, in the
  order the source makes them; the two early returns and the \<^verbatim>\<open>KeyError\<close> of
  \<^verbatim>\<open>rev_complement\<close>, which is raised while the argument of \<^verbatim>\<open>stack_energy\<close> is still
  being evaluated, come before any call.
\<close>

datatype energy_call =
  Call_stack_energy string string
  | Call_melting_temperature real real
  | Call_convert_temperature_K_to_C real

definition melting_temperature_traced ::
  "('x, 'y) energymodel \<Rightarrow> Domain \<Rightarrow> (error + real) \<times> energy_call list" where
  "melting_temperature_traced em self =
     (if connected_domain self = - 1 then (Inr (- 500), [])
      else if CHR ''N'' \<in> set (sequence self) \<or> CHR ''n'' \<in> set (sequence self)
        then (Inr (- 501), [])
      else
        (case rev_complement (sequence self) of
           Inl e \<Rightarrow> (Inl e, [])
         | Inr rc \<Rightarrow>
             (case stack_energy em (sequence self) rc of
                (_, _, dH, dS) \<Rightarrow>
                  (let melting_temp_K = em_melting_temperature em dH dS
                   in (Inr (convert_temperature_K_to_C em melting_temp_K),
                       [Call_stack_energy (sequence self) rc,
                        Call_melting_temperature dH dS,
                        Call_convert_temperature_K_to_C melting_temp_K])))))"

section \<open>Concrete objects\<close>

text \<open>
  Small concrete objects at which the theorems below are instantiated. The energy model
  here is an arbitrary stand-in with simple arithmetic, not the package's model.
\<close>

definition sample_energymodel :: "(real, real) energymodel" where
  "sample_energymodel =
     \<lparr> stack_energy = (\<lambda>s1 s2. (0, 0, real (length s1), real (length s2) + 1)),
       em_melting_temperature = (\<lambda>dH dS. dH / dS),
       convert_temperature_K_to_C = (\<lambda>t. t - 273) \<rparr>"

definition sample_bases :: "string \<Rightarrow> DnaBase list" where
  "sample_bases sq =
     map (\<lambda>(k, c). \<lparr> seq = [c], coordinates = [1, 0, real k], p = int k \<rparr>)
       (enumerate 0 sq)"

definition sample_helix :: DnaStructureHelix where
  "sample_helix = \<lparr> helix_axis_coords = (\<lambda>k. Some [0, 0, real_of_int k]) \<rparr>"

definition other_helix :: DnaStructureHelix where
  "other_helix = \<lparr> helix_axis_coords = Map.empty \<rparr>"

text \<open>
  A domain over the given sequence, as the constructor builds it, then paired with
  domain 5 of strand 2 as the pairing pass of the package would.
\<close>

definition paired_domain :: "string \<Rightarrow> Domain" where
  "paired_domain sq =
     (Domain_init 7 sample_helix None (sample_bases sq))
       \<lparr> connected_strand := 2, connected_domain := 5 \<rparr>"

text \<open>
  A store with one red strand and three domains: domain 0 has its own colour and the
  strand, domain 1 only the strand, every other domain neither.
\<close>

definition sample_heap :: heap where
  "sample_heap =
     \<lparr> strands = (\<lambda>r. \<lparr> strand_color = [1, 0, 0] \<rparr>),
       domains = (\<lambda>r.
         if r = 0 then (Domain_init 0 sample_helix (Some 0) (sample_bases ''AT''))
                         \<lparr> stored_color := Some [0, 1, 0] \<rparr>
         else if r = 1 then Domain_init 1 sample_helix (Some 0) (sample_bases ''GC'')
         else Domain_init (int r) sample_helix None (sample_bases ''A'')) \<rparr>"

section \<open>Properties of the reverse complement\<close>

lemma comp_table_nucleotide:
  "c \<in> nucleotides \<Longrightarrow> comp_table c = Some [wc_complement c]"
  by (auto simp: nucleotides_def comp_table_def wc_complement_def)

lemma comp_table_dom: "dom comp_table = nucleotides"
  by (auto simp: nucleotides_def comp_table_def split: if_splits)

lemma wc_complement_closed: "c \<in> nucleotides \<Longrightarrow> wc_complement c \<in> nucleotides"
  by (auto simp: nucleotides_def wc_complement_def)

lemma wc_complement_twice: "wc_complement (wc_complement c) = c"
  by (simp add: wc_complement_def)

lemma rev_complement_loop_ok:
  "i \<le> length sq \<Longrightarrow> set sq \<subseteq> nucleotides \<Longrightarrow>
   rev_complement_loop sq i rev_list =
     Inr (rev_list @ map (\<lambda>c. [wc_complement c]) (rev (take (length sq - i) sq)))"
proof (induction sq i rev_list rule: rev_complement_loop.induct)
  case (1 sq i rev_list)
  show ?case
  proof (cases "i < length sq")
    case False
    then show ?thesis
      by (simp add: rev_complement_loop.simps [of sq i rev_list])
  next
    case True
    let ?j = "length sq - i - 1"
    have j: "?j < length sq" using True by simp
    have mem: "sq ! ?j \<in> nucleotides"
      using j "1.prems"(2) nth_mem by blast
    have tbl: "comp_table (sq ! ?j) = Some [wc_complement (sq ! ?j)]"
      using mem by (rule comp_table_nucleotide)
    have split_take: "take (length sq - i) sq = take ?j sq @ [sq ! ?j]"
    proof -
      have "length sq - i = Suc ?j" using True by simp
      then show ?thesis using j by (simp add: take_Suc_conv_app_nth)
    qed
    have ih: "rev_complement_loop sq (Suc i) (rev_list @ [[wc_complement (sq ! ?j)]]) =
        Inr ((rev_list @ [[wc_complement (sq ! ?j)]]) @
             map (\<lambda>c. [wc_complement c]) (rev (take (length sq - Suc i) sq)))"
      using "1.IH" [OF True tbl] True "1.prems"(2) by simp
    show ?thesis
      using True tbl ih split_take
      by (simp add: rev_complement_loop.simps [of sq i rev_list])
  qed
qed

lemma rev_complement_ok:
  "set sq \<subseteq> nucleotides \<Longrightarrow> rev_complement sq = Inr (map wc_complement (rev sq))"
  by (simp add: rev_complement_def rev_complement_loop_ok)

lemma comp_table_none: "c \<notin> nucleotides \<Longrightarrow> comp_table c = None"
  using comp_table_dom by blast

lemma rev_complement_loop_fail:
  "i \<le> length sq \<Longrightarrow> \<not> set (take (length sq - i) sq) \<subseteq> nucleotides \<Longrightarrow>
   rev_complement_loop sq i rev_list = Inl KeyError"
proof (induction sq i rev_list rule: rev_complement_loop.induct)
  case (1 sq i rev_list)
  have lt: "i < length sq"
  proof (rule ccontr)
    assume "\<not> i < length sq"
    then have "take (length sq - i) sq = []" by simp
    with "1.prems"(2) show False by simp
  qed
  let ?j = "length sq - i - 1"
  have j: "?j < length sq" using lt by simp
  have split_take: "take (length sq - i) sq = take ?j sq @ [sq ! ?j]"
  proof -
    have "length sq - i = Suc ?j" using lt by simp
    then show ?thesis using j by (simp add: take_Suc_conv_app_nth)
  qed
  show ?case
  proof (cases "comp_table (sq ! ?j)")
    case None
    then show ?thesis
      using lt by (simp add: rev_complement_loop.simps [of sq i rev_list])
  next
    case (Some c)
    then have "sq ! ?j \<in> nucleotides"
      using comp_table_none [of "sq ! ?j"] by (cases "sq ! ?j \<in> nucleotides") simp_all
    with "1.prems"(2) split_take have "\<not> set (take ?j sq) \<subseteq> nucleotides"
      by auto
    then have "\<not> set (take (length sq - Suc i) sq) \<subseteq> nucleotides"
      by simp
    with "1.IH" [OF lt Some] lt
    have "rev_complement_loop sq (Suc i) (rev_list @ [c]) = Inl KeyError"
      by simp
    with lt Some show ?thesis
      by (simp add: rev_complement_loop.simps [of sq i rev_list])
  qed
qed

lemma rev_complement_fail:
  "\<not> set sq \<subseteq> nucleotides \<Longrightarrow> rev_complement sq = Inl KeyError"
  by (simp add: rev_complement_def rev_complement_loop_fail)

lemma clean_member:
  "c \<in> clean_nucleotides \<longleftrightarrow> c \<in> nucleotides \<and> c \<noteq> CHR ''N'' \<and> c \<noteq> CHR ''n''"
  by (auto simp: clean_nucleotides_def nucleotides_def)

lemma clean_iff:
  assumes "CHR ''N'' \<notin> set sq" and "CHR ''n'' \<notin> set sq"
  shows "set sq \<subseteq> clean_nucleotides \<longleftrightarrow> set sq \<subseteq> nucleotides"
proof
  assume "set sq \<subseteq> clean_nucleotides"
  then show "set sq \<subseteq> nucleotides" using clean_member by blast
next
  assume sub: "set sq \<subseteq> nucleotides"
  show "set sq \<subseteq> clean_nucleotides"
  proof
    fix c assume c: "c \<in> set sq"
    then have "c \<in> nucleotides" using sub by blast
    moreover have "c \<noteq> CHR ''N''" "c \<noteq> CHR ''n''" using c assms by auto
    ultimately show "c \<in> clean_nucleotides" by (simp add: clean_member)
  qed
qed

text \<open>
  Claim C5: for every string \<open>s\<close> over \<open>A, T, G, C, N\<close> in either case, \<open>rev_complement\<close>
  returns on \<open>s\<close>, returns on its own result, and the second result is \<open>s\<close> again.
\<close>

theorem rev_complement_involution:
  assumes "set s \<subseteq> nucleotides"
  shows "\<exists>r. rev_complement s = Inr r \<and> rev_complement r = Inr s"
proof -
  let ?r = "map wc_complement (rev s)"
  have first: "rev_complement s = Inr ?r"
    using assms by (rule rev_complement_ok)
  have "set ?r \<subseteq> nucleotides"
    using assms wc_complement_closed by auto
  then have "rev_complement ?r = Inr (map wc_complement (rev ?r))"
    by (rule rev_complement_ok)
  moreover have "map wc_complement (rev ?r) = s"
    by (simp add: rev_map wc_complement_twice comp_def)
  ultimately show ?thesis using first by simp
qed

theorem rev_complement_involution_witness:
  "rev_complement ''ATGCNatgcn'' = Inr ''ngcatNGCAT'' \<and>
   rev_complement ''ngcatNGCAT'' = Inr ''ATGCNatgcn''"
proof -
  have r: "rev_complement ''ATGCNatgcn'' = Inr ''ngcatNGCAT''"
    by (simp add: rev_complement_def rev_complement_loop.simps comp_table_def)
  have "set ''ATGCNatgcn'' \<subseteq> nucleotides"
    by (simp add: nucleotides_def)
  from rev_complement_involution [OF this] r show ?thesis by simp
qed

text \<open>
  Claim C6: for every string \<open>s\<close> over \<open>A, T, G, C, N\<close> in either case, \<open>rev_complement\<close>
  returns a string of the length of \<open>s\<close> whose character at every index \<open>i\<close> is the
  Watson-Crick complement, of the same case, of the character of \<open>s\<close> at index
  \<open>len(s) - 1 - i\<close>.
\<close>

theorem rev_complement_pointwise:
  assumes "set s \<subseteq> nucleotides"
  shows "\<exists>r. rev_complement s = Inr r \<and> length r = length s \<and>
           (\<forall>i < length s. r ! i = wc_complement (s ! (length s - 1 - i)))"
proof -
  let ?r = "map wc_complement (rev s)"
  have "rev_complement s = Inr ?r"
    using assms by (rule rev_complement_ok)
  moreover have "length ?r = length s" by simp
  moreover have "\<forall>i < length s. ?r ! i = wc_complement (s ! (length s - 1 - i))"
    by (simp add: rev_nth)
  ultimately show ?thesis by blast
qed

theorem rev_complement_pointwise_witness:
  "\<exists>r. rev_complement ''AtGcN'' = Inr r \<and> length r = 5 \<and>
     r ! 0 = wc_complement CHR ''N'' \<and> r ! 0 = CHR ''N'' \<and>
     r ! 1 = wc_complement CHR ''c'' \<and> r ! 1 = CHR ''g'' \<and>
     r ! 2 = wc_complement CHR ''G'' \<and> r ! 2 = CHR ''C'' \<and>
     r ! 3 = wc_complement CHR ''t'' \<and> r ! 3 = CHR ''a'' \<and>
     r ! 4 = wc_complement CHR ''A'' \<and> r ! 4 = CHR ''T''"
proof -
  have "set ''AtGcN'' \<subseteq> nucleotides"
    by (simp add: nucleotides_def)
  from rev_complement_pointwise [OF this]
  obtain r where r: "rev_complement ''AtGcN'' = Inr r" "length r = length ''AtGcN''"
    "\<forall>i < length ''AtGcN''. r ! i = wc_complement (''AtGcN'' ! (length ''AtGcN'' - 1 - i))"
    by blast
  from r(3) have "r ! 0 = wc_complement (''AtGcN'' ! 4)" "r ! 1 = wc_complement (''AtGcN'' ! 3)"
    "r ! 2 = wc_complement (''AtGcN'' ! 2)" "r ! 3 = wc_complement (''AtGcN'' ! 1)"
    "r ! 4 = wc_complement (''AtGcN'' ! 0)"
    by simp_all
  with r(1,2) show ?thesis by (simp add: wc_complement_def)
qed

section \<open>Properties of the methods\<close>

lemma seq_sample_bases: "concat (map seq (sample_bases sq)) = sq"
  unfolding sample_bases_def
  by (induction sq rule: rev_induct) (simp_all add: enumerate_append_eq)

lemma sequence_paired_domain: "sequence (paired_domain sq) = sq"
  by (simp add: paired_domain_def Domain_init_def seq_sample_bases)

lemma connected_paired_domain: "connected_domain (paired_domain sq) = 5"
  by (simp add: paired_domain_def Domain_init_def)

lemma py_index_first: "xs \<noteq> [] \<Longrightarrow> py_index xs 0 = Inr (hd xs)"
  by (cases xs) (simp_all add: py_index_def)

lemma py_index_last: "xs \<noteq> [] \<Longrightarrow> py_index xs (- 1) = Inr (last xs)"
  by (cases xs rule: rev_cases) (simp_all add: py_index_def)

lemma get_end_points_nonempty:
  "base_list self \<noteq> [] \<Longrightarrow>
   get_end_points self =
     Inr (coordinates (hd (base_list self)), coordinates (last (base_list self)))"
  by (simp add: get_end_points_def py_index_first py_index_last)

text \<open>
  Claim C1: a domain with \<open>connected_domain = -1\<close> has melting temperature \<open>-500.0\<close>,
  whatever its sequence holds and whatever the energy model is; the test for an unpaired
  domain comes before the test for \<open>N\<close> and \<open>n\<close>.
\<close>

theorem melting_temperature_unpaired:
  "connected_domain self = - 1 \<Longrightarrow> melting_temperature em self = Inr (- 500)"
  by (simp add: melting_temperature_def)

theorem melting_temperature_unpaired_witness:
  "connected_domain (Domain_init 3 sample_helix None (sample_bases ''ATNC'')) = - 1 \<and>
   CHR ''N'' \<in> set (sequence (Domain_init 3 sample_helix None (sample_bases ''ATNC''))) \<and>
   melting_temperature sample_energymodel
     (Domain_init 3 sample_helix None (sample_bases ''ATNC'')) = Inr (- 500)"
  using melting_temperature_unpaired
    [of "Domain_init 3 sample_helix None (sample_bases ''ATNC'')" sample_energymodel]
  by (simp add: Domain_init_def seq_sample_bases)

lemma melting_temperature_traced_result:
  "fst (melting_temperature_traced em self) = melting_temperature em self"
  by (simp add: melting_temperature_traced_def melting_temperature_def Let_def
      split: sum.splits prod.splits)

text \<open>
  Claim C2: a domain with \<open>connected_domain \<noteq> -1\<close> whose sequence contains \<open>N\<close> or \<open>n\<close>
  anywhere has melting temperature \<open>-501.0\<close>, and the method makes no call to the energy
  model on the way: the trace of energy-model calls is empty. Both hold for every energy
  model and whatever else the sequence contains.
\<close>

theorem melting_temperature_ambiguous:
  "connected_domain self \<noteq> - 1 \<Longrightarrow>
   CHR ''N'' \<in> set (sequence self) \<or> CHR ''n'' \<in> set (sequence self) \<Longrightarrow>
   melting_temperature em self = Inr (- 501) \<and>
   melting_temperature_traced em self = (Inr (- 501), [])"
  by (simp add: melting_temperature_def melting_temperature_traced_def)

theorem melting_temperature_ambiguous_witness:
  "melting_temperature sample_energymodel (paired_domain ''ATNC'') = Inr (- 501) \<and>
   melting_temperature_traced sample_energymodel (paired_domain ''ATNC'') = (Inr (- 501), []) \<and>
   melting_temperature_traced sample_energymodel (paired_domain ''Xn'') = (Inr (- 501), []) \<and>
   melting_temperature_traced sample_energymodel (paired_domain ''ATGC'') =
     (Inr (4 / 5 - 273),
      [Call_stack_energy ''ATGC'' ''GCAT'', Call_melting_temperature 4 5,
       Call_convert_temperature_K_to_C (4 / 5)])"
proof -
  have computed: "melting_temperature_traced sample_energymodel (paired_domain ''ATGC'') =
     (Inr (4 / 5 - 273),
      [Call_stack_energy ''ATGC'' ''GCAT'', Call_melting_temperature 4 5,
       Call_convert_temperature_K_to_C (4 / 5)])"
    by (simp add: melting_temperature_traced_def sequence_paired_domain
        connected_paired_domain rev_complement_def rev_complement_loop.simps comp_table_def
        sample_energymodel_def)
  show ?thesis
    using melting_temperature_ambiguous [of "paired_domain ''ATNC''" sample_energymodel]
      melting_temperature_ambiguous [of "paired_domain ''Xn''" sample_energymodel]
      computed
    by (simp add: sequence_paired_domain connected_paired_domain)
qed

text \<open>
  Claim C3, as amended: for a domain with \<open>connected_domain \<noteq> -1\<close> and a sequence free of
  \<open>N\<close> and \<open>n\<close>, \<open>melting_temperature\<close> returns
  \<open>convert_temperature_K_to_C (energy_model.melting_temperature dH dS)\<close>, with \<open>dH\<close> and
  \<open>dS\<close> the third and fourth results of \<open>stack_energy\<close> on the sequence and its reverse
  complement, when every character of the sequence is one of \<open>A, T, G, C\<close> in either
  case; on any other sequence it raises \<open>KeyError\<close> and returns nothing.
\<close>

theorem melting_temperature_computed:
  assumes "connected_domain self \<noteq> - 1"
    and "CHR ''N'' \<notin> set (sequence self)" and "CHR ''n'' \<notin> set (sequence self)"
  shows "melting_temperature em self =
    (if set (sequence self) \<subseteq> clean_nucleotides then
       Inr (let se = stack_energy em (sequence self)
                       (map wc_complement (rev (sequence self)));
                dH = fst (snd (snd se));
                dS = snd (snd (snd se))
            in convert_temperature_K_to_C em (em_melting_temperature em dH dS))
     else Inl KeyError)"
proof (cases "set (sequence self) \<subseteq> nucleotides")
  case True
  then have rc: "rev_complement (sequence self) = Inr (map wc_complement (rev (sequence self)))"
    by (rule rev_complement_ok)
  have "set (sequence self) \<subseteq> clean_nucleotides"
    using True clean_iff [OF assms(2,3)] by simp
  then show ?thesis
    using assms by (simp add: melting_temperature_def rc Let_def split: prod.splits)
next
  case False
  then have rc: "rev_complement (sequence self) = Inl KeyError"
    by (rule rev_complement_fail)
  have "\<not> set (sequence self) \<subseteq> clean_nucleotides"
    using False clean_iff [OF assms(2,3)] by simp
  then show ?thesis
    using assms by (simp add: melting_temperature_def rc)
qed

theorem melting_temperature_computed_witness:
  "map wc_complement (rev ''ATGC'') = ''GCAT'' \<and>
   stack_energy sample_energymodel ''ATGC'' ''GCAT'' = (0, 0, 4, 5) \<and>
   melting_temperature sample_energymodel (paired_domain ''ATGC'') = Inr (4 / 5 - 273)"
  using melting_temperature_computed [of "paired_domain ''ATGC''" sample_energymodel]
  by (simp add: sequence_paired_domain connected_paired_domain clean_nucleotides_def
      wc_complement_def sample_energymodel_def)

text \<open>
  The claim as first worded asks for a returned value on every sequence free of \<open>N\<close> and
  \<open>n\<close>. The paired domain over \<open>AXGC\<close> is such a sequence, and \<open>comp\<close> has no entry for
  \<open>X\<close>.
\<close>

theorem melting_temperature_computed_counterexample:
  "connected_domain (paired_domain ''AXGC'') \<noteq> - 1 \<and>
   CHR ''N'' \<notin> set (sequence (paired_domain ''AXGC'')) \<and>
   CHR ''n'' \<notin> set (sequence (paired_domain ''AXGC'')) \<and>
   melting_temperature sample_energymodel (paired_domain ''AXGC'') = Inl KeyError"
  by (simp add: melting_temperature_def sequence_paired_domain connected_paired_domain
      rev_complement_def rev_complement_loop.simps comp_table_def)

text \<open>
  Claim C4, as amended: for a domain with non-empty \<open>base_list\<close>, \<open>get_end_points\<close>
  returns the pair of the \<open>coordinates\<close> attribute of the first base and the
  \<open>coordinates\<close> attribute of the last base of \<open>base_list\<close>, in that order.
\<close>

theorem get_end_points_base_coordinates:
  "base_list self \<noteq> [] \<Longrightarrow>
   get_end_points self =
     Inr (coordinates (base_list self ! 0),
          coordinates (base_list self ! (length (base_list self) - 1)))"
  by (simp add: get_end_points_nonempty hd_conv_nth last_conv_nth)

theorem get_end_points_base_coordinates_witness:
  "base_list (paired_domain ''ATGC'') \<noteq> [] \<and>
   get_end_points (paired_domain ''ATGC'') = Inr ([1, 0, 0], [1, 0, 3])"
  using get_end_points_base_coordinates [of "paired_domain ''ATGC''"]
  by (simp add: paired_domain_def Domain_init_def sample_bases_def)

text \<open>
  The claim as first worded takes the two points from the helix's table at the positions
  of the two bases. On the paired domain over \<open>ATGC\<close> the bases sit at distance 1 from
  the axis, and the two readings differ.
\<close>

theorem get_end_points_table_counterexample:
  "base_list (paired_domain ''ATGC'') \<noteq> [] \<and>
   get_end_points (paired_domain ''ATGC'') = Inr ([1, 0, 0], [1, 0, 3]) \<and>
   table_end_points (paired_domain ''ATGC'') = Inr ([0, 0, 0], [0, 0, 3])"
  by (simp add: get_end_points_def table_end_points_def py_index_def paired_domain_def
      Domain_init_def sample_bases_def sample_helix_def)

text \<open>
  Claim C7: reading \<open>color\<close> gives the stored \<open>_color\<close> when it is not \<open>None\<close>; otherwise
  the colour of the owning strand when the strand is not \<open>None\<close>; otherwise
  \<open>[0.5, 0.5, 0.5]\<close>.
\<close>

theorem color_fallback:
  "(stored_color (domains h self) = Some c \<longrightarrow> color h self = c) \<and>
   (stored_color (domains h self) = None \<and> strand (domains h self) = Some s \<longrightarrow>
      color h self = strand_color (strands h s)) \<and>
   (stored_color (domains h self) = None \<and> strand (domains h self) = None \<longrightarrow>
      color h self = [0.5, 0.5, 0.5])"
  by (simp add: color_def)

theorem color_fallback_witness:
  "color sample_heap 0 = [0, 1, 0] \<and>
   color sample_heap 1 = [1, 0, 0] \<and>
   color sample_heap 2 = [0.5, 0.5, 0.5]"
  using color_fallback [of sample_heap 0 "[0, 1, 0]" 0]
    color_fallback [of sample_heap 1 "[]" 0]
    color_fallback [of sample_heap 2 "[]" 0]
  by (simp add: sample_heap_def Domain_init_def)

text \<open>
  Claim C9: setting \<open>color\<close> to any value \<open>v\<close> changes the \<open>_color\<close> field of that domain
  and nothing else: every strand object, so the owning strand's colour too, every other
  domain object, and every other field of the domain stay as they were.
\<close>

theorem color_setter_frame:
  "strands (color_setter h self v) = strands h \<and>
   (\<forall>s. strand (domains h self) = Some s \<longrightarrow>
      strand_color (strands (color_setter h self v) s) = strand_color (strands h s)) \<and>
   (\<forall>r. r \<noteq> self \<longrightarrow> domains (color_setter h self v) r = domains h r) \<and>
   stored_color (domains (color_setter h self v) self) = v \<and>
   domain_id (domains (color_setter h self v) self) = domain_id (domains h self) \<and>
   helix (domains (color_setter h self v) self) = helix (domains h self) \<and>
   strand (domains (color_setter h self v) self) = strand (domains h self) \<and>
   base_list (domains (color_setter h self v) self) = base_list (domains h self) \<and>
   sequence (domains (color_setter h self v) self) = sequence (domains h self) \<and>
   connected_strand (domains (color_setter h self v) self) =
     connected_strand (domains h self) \<and>
   connected_domain (domains (color_setter h self v) self) =
     connected_domain (domains h self)"
  by (simp add: color_setter_def)

theorem color_setter_frame_witness:
  "strand (domains sample_heap 1) = Some 0 \<and>
   strand_color (strands (color_setter sample_heap 1 (Some [0, 0, 1])) 0) = [1, 0, 0] \<and>
   domains (color_setter sample_heap 1 (Some [0, 0, 1])) 0 = domains sample_heap 0 \<and>
   color (color_setter sample_heap 1 (Some [0, 0, 1])) 0 = [0, 1, 0] \<and>
   color (color_setter sample_heap 1 (Some [0, 0, 1])) 1 = [0, 0, 1] \<and>
   sequence (domains (color_setter sample_heap 1 (Some [0, 0, 1])) 1) = ''GC''"
  using color_setter_frame [of sample_heap 1 "Some [0, 0, 1]"]
  by (simp add: color_def sample_heap_def Domain_init_def seq_sample_bases)

text \<open>
  Claim C10: two domains whose first bases have equal \<open>coordinates\<close> and whose last bases
  have equal \<open>coordinates\<close> get the same pair from \<open>get_end_points\<close>, whatever their
  helices' \<open>helix_axis_coords\<close> tables are.
\<close>

theorem get_end_points_helix_independent:
  assumes "base_list d1 \<noteq> []" and "base_list d2 \<noteq> []"
    and "coordinates (hd (base_list d1)) = coordinates (hd (base_list d2))"
    and "coordinates (last (base_list d1)) = coordinates (last (base_list d2))"
  shows "\<exists>pts. get_end_points d1 = Inr pts \<and> get_end_points d2 = Inr pts"
  using assms by (simp add: get_end_points_nonempty)

theorem get_end_points_helix_independent_witness:
  "helix_axis_coords (helix (paired_domain ''ATGC'')) \<noteq>
     helix_axis_coords (helix ((paired_domain ''AGGC'')\<lparr>helix := other_helix\<rparr>)) \<and>
   get_end_points (paired_domain ''ATGC'') = Inr ([1, 0, 0], [1, 0, 3]) \<and>
   get_end_points ((paired_domain ''AGGC'')\<lparr>helix := other_helix\<rparr>) =
     Inr ([1, 0, 0], [1, 0, 3])"
proof -
  have differ: "helix_axis_coords (helix (paired_domain ''ATGC'')) \<noteq>
     helix_axis_coords (helix ((paired_domain ''AGGC'')\<lparr>helix := other_helix\<rparr>))"
    by (simp add: paired_domain_def Domain_init_def sample_helix_def other_helix_def fun_eq_iff)
  have val: "get_end_points (paired_domain ''ATGC'') = Inr ([1, 0, 0], [1, 0, 3])"
    by (simp add: get_end_points_def py_index_def paired_domain_def Domain_init_def
        sample_bases_def)
  have "\<exists>pts. get_end_points (paired_domain ''ATGC'') = Inr pts \<and>
      get_end_points ((paired_domain ''AGGC'')\<lparr>helix := other_helix\<rparr>) = Inr pts"
    by (rule get_end_points_helix_independent)
      (simp_all add: paired_domain_def Domain_init_def sample_bases_def)
  with val differ show ?thesis by auto
qed

end
